theory Spec2Isabelle
  imports Main
begin

section \<open>Pairing (pairing.ts)\<close>

text \<open>
  Timestamps. The source stores \<^verbatim>\<open>new Date().toISOString()\<close> and reads it back with
  \<^verbatim>\<open>new Date(s).getTime()\<close>. An ISO string written by \<^verbatim>\<open>toISOString\<close> denotes its
  instant to the millisecond, so a stored timestamp is represented by that instant:
  an \<open>int\<close>, milliseconds since the epoch, the unit of \<^verbatim>\<open>Date.now()\<close>.
  The clock is an explicit argument of every operation that reads it.
\<close>

definition PAIRING_CODE_LENGTH :: nat where
  "PAIRING_CODE_LENGTH = 8"

definition PAIRING_CODE_TTL_MS :: int where
  "PAIRING_CODE_TTL_MS = 10 * 60 * 1000"

record Owner =
  ownerId :: string
  mainRoomId :: string
  pairedAt :: int

record PendingPairing =
  code :: string
  oderId :: string
  roomId :: string
  roomName :: string
  createdAt :: int

text \<open>
  The two files \<^verbatim>\<open>owner.json\<close> and \<^verbatim>\<open>pending_pairing.json\<close> under DATA_DIR:
  each is absent (\<open>None\<close>) or holds one record.
\<close>

record store =
  OWNER_PATH :: "Owner option"
  PENDING_PATH :: "PendingPairing option"

text \<open>
  Modelled from the spec: \<^verbatim>\<open>loadJson\<close> and \<^verbatim>\<open>saveJson\<close> of utils.ts, which is not
  among the sources. The spec describes the store as "durable key-value persistence for
  exactly two optional records, backed by two independent slots that can each be empty
  or occupied": loading an occupied slot gives its record, loading an empty slot gives
  the default passed by the caller, saving occupies the slot with the record.
\<close>

definition loadJson :: "'a option \<Rightarrow> 'a \<Rightarrow> 'a" where
  "loadJson slot dflt = (case slot of Some v \<Rightarrow> v | None \<Rightarrow> dflt)"

definition saveJson :: "'a \<Rightarrow> 'a option" where
  "saveJson v = Some v"

text \<open>
  \<^verbatim>\<open>fs.unlinkSync\<close> inside \<^verbatim>\<open>try { } catch { /* ignore */ }\<close>: the file is gone
  afterwards, and removing an absent file is not an error for the caller.
\<close>

definition unlinkSync :: "'a option \<Rightarrow> 'a option" where
  "unlinkSync slot = None"

subsection \<open>Code generation\<close>

definition alphabet :: string where
  "alphabet = ''ABCDEFGHJKLMNPQRSTUVWXYZ23456789''"

text \<open>
  \<^verbatim>\<open>alphabet[k]\<close>: the one-character string at index \<open>k\<close>; out of range JavaScript
  yields \<^verbatim>\<open>undefined\<close>, which \<^verbatim>\<open>code += ...\<close> appends as the text "undefined".
\<close>

definition index_str :: "string \<Rightarrow> nat \<Rightarrow> string" where
  "index_str s k = (if k < length s then [s ! k] else ''undefined'')"

text \<open>
  \<^verbatim>\<open>crypto.randomInt(0, alphabet.length)\<close> is the random source of the loop; \<open>rnd i\<close>
  is the integer its call in iteration \<open>i\<close> returns. Node documents the result to lie
  in \<open>[0, alphabet.length)\<close>.
\<close>

function generateCode_loop :: "(nat \<Rightarrow> nat) \<Rightarrow> nat \<Rightarrow> string \<Rightarrow> string" where
  "generateCode_loop rnd i acc =
     (if i < PAIRING_CODE_LENGTH
      then generateCode_loop rnd (i + 1) (acc @ index_str alphabet (rnd i))
      else acc)"
  by pat_completeness auto
termination
  by (relation "measure (\<lambda>(rnd, i, acc). PAIRING_CODE_LENGTH - i)") auto

declare generateCode_loop.simps [simp del]

definition generateCode :: "(nat \<Rightarrow> nat) \<Rightarrow> string" where
  "generateCode rnd = generateCode_loop rnd 0 []"

subsection \<open>Owner queries\<close>

text \<open>
  \<^verbatim>\<open>loadJson<Owner | null>(OWNER_PATH, null)\<close>: the value type is \<open>Owner option\<close>, a
  record in the file is read as \<open>Some\<close> of it, and the default is \<open>None\<close>.
\<close>

definition getOwner :: "store \<Rightarrow> Owner option" where
  "getOwner st = loadJson (map_option Some (OWNER_PATH st)) None"

definition isOwner :: "store \<Rightarrow> string \<Rightarrow> bool" where
  "isOwner st uid = (case getOwner st of None \<Rightarrow> False | Some ow \<Rightarrow> ownerId ow = uid)"

definition isPaired :: "store \<Rightarrow> bool" where
  "isPaired st = (getOwner st \<noteq> None)"

definition getMainRoomId :: "store \<Rightarrow> string option" where
  "getMainRoomId st = (case getOwner st of None \<Rightarrow> None | Some ow \<Rightarrow> Some (mainRoomId ow))"

definition isMainRoom :: "store \<Rightarrow> string \<Rightarrow> bool" where
  "isMainRoom st rid = (case getOwner st of None \<Rightarrow> False | Some ow \<Rightarrow> mainRoomId ow = rid)"

subsection \<open>Pending requests\<close>

text \<open>
  Every operation takes the store and returns its result with the store it leaves.
\<close>

definition createPairingRequest ::
  "(nat \<Rightarrow> nat) \<Rightarrow> int \<Rightarrow> string \<Rightarrow> string \<Rightarrow> string \<Rightarrow> store \<Rightarrow> string \<times> store" where
  "createPairingRequest rnd now uid rid rname st =
     (let c = generateCode rnd;
          pending = \<lparr>code = c, oderId = uid, roomId = rid, roomName = rname, createdAt = now\<rparr>
      in (c, st\<lparr>PENDING_PATH := saveJson pending\<rparr>))"

definition getPendingPairing :: "int \<Rightarrow> store \<Rightarrow> PendingPairing option \<times> store" where
  "getPendingPairing now st =
     (case loadJson (map_option Some (PENDING_PATH st)) None of
        None \<Rightarrow> (None, st)
      | Some pending \<Rightarrow>
          if now - createdAt pending > PAIRING_CODE_TTL_MS
          then (None, st\<lparr>PENDING_PATH := unlinkSync (PENDING_PATH st)\<rparr>)
          else (Some pending, st))"

subsection \<open>The string built-ins of the engine\<close>

text \<open>
  Strings. A \<open>string\<close> stands for a JavaScript string under a fixed one-to-one encoding
  that leaves ASCII text as it is. The program compares strings, concatenates them and
  tests them for emptiness, which any such encoding preserves. Two built-ins it calls
  depend on the Unicode tables of the engine: \<^verbatim>\<open>String.prototype.toUpperCase\<close> (which
  also maps the long s to \<open>S\<close> and the sharp s to \<open>SS\<close>, for instance) and
  \<^verbatim>\<open>String.prototype.trim\<close> (which also strips the no-break space, the byte order mark,
  the line and paragraph separators and every space separator). They are taken from the
  engine as they are: every operation that calls one of them takes the engine as its
  first argument, and what is proved holds for every engine.
\<close>

record engine =
  toUpperCase :: "string \<Rightarrow> string"
  trim :: "string \<Rightarrow> string"

text \<open>
  On ASCII text the two built-ins are the functions below: \<open>a\<close> to \<open>z\<close> become \<open>A\<close> to
  \<open>Z\<close>; tab, line feed, vertical tab, form feed, carriage return and space are stripped
  from both ends. \<open>ascii_engine\<close> serves the concrete runs, whose strings are ASCII.
\<close>

definition ascii_toUpperCase_char :: "char \<Rightarrow> char" where
  "ascii_toUpperCase_char c =
     (let n = (of_char c :: nat) in if 97 \<le> n \<and> n \<le> 122 then char_of (n - 32) else c)"

definition ascii_toUpperCase :: "string \<Rightarrow> string" where
  "ascii_toUpperCase s = map ascii_toUpperCase_char s"

definition isWhiteSpace :: "char \<Rightarrow> bool" where
  "isWhiteSpace c = ((of_char c :: nat) \<in> {9, 10, 11, 12, 13, 32})"

definition ascii_trim :: "string \<Rightarrow> string" where
  "ascii_trim s = rev (dropWhile isWhiteSpace (rev (dropWhile isWhiteSpace s)))"

definition ascii_engine :: engine where
  "ascii_engine = \<lparr>toUpperCase = ascii_toUpperCase, trim = ascii_trim\<rparr>"

text \<open>
  \<open>approvePairing\<close> reads the clock twice: \<open>now\<close> inside \<open>getPendingPairing\<close>, and
  \<open>now'\<close> for \<open>pairedAt\<close>.
\<close>

definition approvePairing ::
  "engine \<Rightarrow> int \<Rightarrow> int \<Rightarrow> string \<Rightarrow> store \<Rightarrow> Owner option \<times> store" where
  "approvePairing js now now' supplied st =
     (case getPendingPairing now st of
        (None, st1) \<Rightarrow> (None, st1)
      | (Some pending, st1) \<Rightarrow>
          if toUpperCase js (code pending) \<noteq> toUpperCase js supplied then (None, st1)
          else
            (let owner = \<lparr>ownerId = oderId pending, mainRoomId = roomId pending, pairedAt = now'\<rparr>;
                 st2 = st1\<lparr>OWNER_PATH := saveJson owner\<rparr>;
                 st3 = st2\<lparr>PENDING_PATH := unlinkSync (PENDING_PATH st2)\<rparr>
             in (Some owner, st3)))"

section \<open>The pairing command (pair.ts)\<close>

text \<open>
  JavaScript's \<^verbatim>\<open>!s\<close> for a value that is a string or \<^verbatim>\<open>undefined\<close>: true for
  \<^verbatim>\<open>undefined\<close> and for the empty string.
\<close>

definition falsy :: "string option \<Rightarrow> bool" where
  "falsy s = (case s of None \<Rightarrow> True | Some v \<Rightarrow> v = [])"

record RegisteredGroup =
  name :: string
  group_folder :: string
  trigger :: string
  added_at :: int

text \<open>
  What the command reads and writes: the pairing store, the file
  \<^verbatim>\<open>registered_groups.json\<close> (absent, or a mapping from room ids to groups), and
  the directories it asks \<^verbatim>\<open>fs.mkdirSync\<close> to create (each a list of the path
  segments handed to \<^verbatim>\<open>path.join\<close>).
\<close>

record world =
  pairing :: store
  registered_groups :: "(string \<rightharpoonup> RegisteredGroup) option"
  directories :: "string list list"

text \<open>
  A run of the command: the exit status, the lines written with \<^verbatim>\<open>console.error\<close> and
  \<^verbatim>\<open>console.log\<close>, and the world it leaves. \<^verbatim>\<open>process.exit(1)\<close> ends the run;
  reaching the end of the script exits with status 0.
\<close>

record cli_run =
  exit_status :: nat
  stderr :: "string list"
  stdout :: "string list"
  world_after :: world

text \<open>
  \<open>toISO\<close> renders a stored timestamp as the ISO string the file holds. \<open>data_dir\<close> and
  \<open>main_folder\<close> are DATA_DIR and MAIN_GROUP_FOLDER of config.ts, which is not among the
  sources. \<open>argv2\<close> is \<^verbatim>\<open>process.argv[2]\<close>. The run reads the clock as \<open>now\<close>. \<open>js\<close>
  is the engine, for \<open>approvePairing\<close>.
\<close>

definition pair_cli ::
  "engine \<Rightarrow> (int \<Rightarrow> string) \<Rightarrow> string \<Rightarrow> string \<Rightarrow> int \<Rightarrow> string option \<Rightarrow> world \<Rightarrow>
   cli_run" where
  "pair_cli js toISO data_dir main_folder now argv2 w =
     (if falsy argv2 then
        (case getPendingPairing now (pairing w) of
           (pending, st1) \<Rightarrow>
             \<lparr>exit_status = 1,
              stderr = [''Usage: npm run pair <CODE>'', []] @
                (case pending of
                   Some p \<Rightarrow>
                     [''Pending pairing request:'',
                      ''  Code: '' @ code p,
                      ''  User: '' @ oderId p,
                      ''  Room: '' @ roomName p,
                      ''  Created: '' @ toISO (createdAt p)]
                 | None \<Rightarrow>
                     (case getOwner st1 of
                        Some owner \<Rightarrow>
                          [''NanoClaw is already paired:'',
                           ''  Owner: '' @ ownerId owner,
                           ''  Main Room: '' @ mainRoomId owner,
                           ''  Paired: '' @ toISO (pairedAt owner)]
                      | None \<Rightarrow>
                          [''No pending pairing request. Send a message to the bot first.''])),
              stdout = [],
              world_after = w\<lparr>pairing := st1\<rparr>\<rparr>)
      else
        (case getOwner (pairing w) of
           Some existingOwner \<Rightarrow>
             \<lparr>exit_status = 1,
              stderr =
                [''NanoClaw is already paired!'',
                 ''  Owner: '' @ ownerId existingOwner,
                 ''  Main Room: '' @ mainRoomId existingOwner,
                 ''  Paired: '' @ toISO (pairedAt existingOwner),
                 [],
                 ''To reset, delete data/owner.json and restart NanoClaw.''],
              stdout = [],
              world_after = w\<rparr>
         | None \<Rightarrow>
             (case approvePairing js now now (case argv2 of Some c \<Rightarrow> c | None \<Rightarrow> []) (pairing w) of
                (None, st1) \<Rightarrow>
                  (case getPendingPairing now st1 of
                     (pending, st2) \<Rightarrow>
                       \<lparr>exit_status = 1,
                        stderr = [''Invalid or expired pairing code.''] @
                          (case pending of
                             Some p \<Rightarrow> [''Current valid code: '' @ code p]
                           | None \<Rightarrow>
                               [''No pending pairing request. Send a message to the bot first.'']),
                        stdout = [],
                        world_after = w\<lparr>pairing := st2\<rparr>\<rparr>)
              | (Some owner, st1) \<Rightarrow>
                  (let groups = loadJson (registered_groups w) Map.empty;
                       groups' = groups(mainRoomId owner \<mapsto>
                         \<lparr>name = ''main'', group_folder = main_folder,
                          trigger = ''@Andy'', added_at = now\<rparr>)
                   in \<lparr>exit_status = 0,
                       stderr = [],
                       stdout =
                         [[CHR 0xE2, CHR 0x9C, CHR 0x85] @ '' Pairing successful!'',
                          [],
                          ''  Owner: '' @ ownerId owner,
                          ''  Main Room: '' @ mainRoomId owner,
                          ''  Folder: groups/'' @ main_folder @ ''/'',
                          [],
                          ''Restart NanoClaw to apply changes:'',
                          ''  systemctl --user restart nanoclaw''],
                       world_after =
                         w\<lparr>pairing := st1,
                           registered_groups := saveJson groups',
                           directories := directories w @
                             [[data_dir, ''..'', ''groups'', main_folder, ''logs'']]\<rparr>\<rparr>))))"

section \<open>Configuration (matrix-types.ts, matrix-client.ts)\<close>

record MatrixRoomConfig =
  enabled :: "bool option"
  room_requireMention :: "bool option"
  folder :: "string option"
  triggerPattern :: "string option"

record MatrixConfig =
  homeserver :: string
  userId :: string
  accessToken :: string
  encryption :: "bool option"
  rooms :: "(string \<rightharpoonup> MatrixRoomConfig) option"
  requireMention :: "bool option"

text \<open>The environment variables \<open>loadMatrixConfig\<close> reads; \<open>None\<close> is an unset variable.\<close>

record process_env =
  MATRIX_HOMESERVER :: "string option"
  MATRIX_USER_ID :: "string option"
  MATRIX_ACCESS_TOKEN :: "string option"
  MATRIX_ENCRYPTION :: "string option"
  MATRIX_REQUIRE_MENTION :: "string option"

datatype config_error =
  SyntaxError
  | CredentialsNotConfigured

text \<open>
  What \<open>loadMatrixConfig\<close> returns: the value \<^verbatim>\<open>JSON.parse\<close> gave for the file, typed
  as a MatrixConfig by the declaration alone (no field is inspected), or the record built
  from the environment.
\<close>

datatype 'j loaded_config =
  FromFile 'j
  | FromEnv MatrixConfig

text \<open>
  \<open>JSON_parse\<close> is JavaScript's \<^verbatim>\<open>JSON.parse\<close>: \<open>None\<close> where it throws a SyntaxError.
  \<open>config_file\<close> is the content of \<^verbatim>\<open>matrix_config.json\<close>, \<open>None\<close> when
  \<^verbatim>\<open>fs.existsSync\<close> is false.
\<close>

definition loadMatrixConfig ::
  "(string \<Rightarrow> 'j option) \<Rightarrow> string option \<Rightarrow> process_env \<Rightarrow> config_error + 'j loaded_config" where
  "loadMatrixConfig JSON_parse config_file env =
     (case config_file of
        Some txt \<Rightarrow>
          (case JSON_parse txt of
             None \<Rightarrow> Inl SyntaxError
           | Some j \<Rightarrow> Inr (FromFile j))
      | None \<Rightarrow>
          (if falsy (MATRIX_HOMESERVER env) \<or> falsy (MATRIX_USER_ID env)
              \<or> falsy (MATRIX_ACCESS_TOKEN env)
           then Inl CredentialsNotConfigured
           else Inr (FromEnv
             \<lparr>homeserver = (case MATRIX_HOMESERVER env of Some v \<Rightarrow> v | None \<Rightarrow> []),
              userId = (case MATRIX_USER_ID env of Some v \<Rightarrow> v | None \<Rightarrow> []),
              accessToken = (case MATRIX_ACCESS_TOKEN env of Some v \<Rightarrow> v | None \<Rightarrow> []),
              encryption = Some (MATRIX_ENCRYPTION env = Some ''true''),
              rooms = None,
              requireMention = Some (MATRIX_REQUIRE_MENTION env \<noteq> Some ''false'')\<rparr>)))"

section \<open>The message monitor (matrix-monitor.ts)\<close>

text \<open>The event the client hands to the \<^verbatim>\<open>room.message\<close> callback.\<close>

record relates_to =
  rel_type :: "string option"
  rel_event_id :: "string option"

record message_content =
  msgtype :: "string option"
  body :: "string option"
  m_relates_to :: "relates_to option"

record room_event =
  sender :: string
  content :: "message_content option"
  event_id :: string
  origin_server_ts :: "int option"

record MatrixMessage =
  msg_roomId :: string
  eventId :: string
  msg_sender :: string
  senderName :: string
  msg_content :: string
  timestamp :: int
  threadId :: "string option"

text \<open>
  The collaborators of the callback. The two client queries return \<open>None\<close> where the
  promise rejects; a profile is its optional \<^verbatim>\<open>displayname\<close>. The two regular
  expressions (\<^verbatim>\<open>mentionPattern\<close>, compiled from the bot's name and user id, and
  TRIGGER_PATTERN of config.ts) are taken by their \<^verbatim>\<open>test\<close> functions: the
  regular-expression engine is not part of the model.
\<close>

record collaborators =
  getJoinedRoomMembers :: "string \<Rightarrow> string list option"
  getUserProfile :: "string \<Rightarrow> string option option"
  mentionPattern_test :: "string \<Rightarrow> bool"
  TRIGGER_PATTERN_test :: "string \<Rightarrow> bool"

text \<open>
  What one run of the callback does, in order: the client queries, the pattern tests and
  the handler invocation it makes. Log lines are left out.
\<close>

datatype call =
  GetJoinedRoomMembers string
  | MentionTest string
  | TriggerTest string
  | GetUserProfile string
  | OnMessage MatrixMessage "MatrixRoomConfig option" bool

text \<open>
  How a run leaves the callback: through one of its \<^verbatim>\<open>return\<close> statements, at its
  end after the handler invocation, or by the RangeError of \<^verbatim>\<open>toISOString\<close>.
\<close>

datatype outcome =
  IgnoredOwnMessage
  | IgnoredNonText
  | IgnoredEmptyText
  | IgnoredDisabledRoom
  | IgnoredNoMention
  | ThrewRangeError
  | Processed

text \<open>\<^verbatim>\<open>config.rooms?.[roomId] ?? null\<close>\<close>

definition roomConfig_of :: "MatrixConfig \<Rightarrow> string \<Rightarrow> MatrixRoomConfig option" where
  "roomConfig_of config rid = (case rooms config of None \<Rightarrow> None | Some rs \<Rightarrow> rs rid)"

text \<open>
  \<^verbatim>\<open>isDM ? false : (roomConfig?.requireMention ?? config.requireMention ?? !isMain)\<close>
\<close>

definition requireMention_of ::
  "bool \<Rightarrow> MatrixRoomConfig option \<Rightarrow> MatrixConfig \<Rightarrow> bool \<Rightarrow> bool" where
  "requireMention_of isDM roomConfig config isMain =
     (if isDM then False
      else (case (case roomConfig of None \<Rightarrow> None | Some rc \<Rightarrow> room_requireMention rc) of
              Some b \<Rightarrow> b
            | None \<Rightarrow> (case requireMention config of Some b \<Rightarrow> b | None \<Rightarrow> \<not> isMain)))"

text \<open>
  The time values a JavaScript Date can hold: at most 8.64e15 milliseconds on either side
  of the epoch. \<^verbatim>\<open>new Date(v)\<close> for any other number is an invalid date, and
  \<^verbatim>\<open>toISOString\<close> of an invalid date throws a RangeError.
\<close>

definition representable :: "int \<Rightarrow> bool" where
  "representable v = (- 8640000000000000 \<le> v \<and> v \<le> 8640000000000000)"

text \<open>
  \<^verbatim>\<open>(event.origin_server_ts as number) || Date.now()\<close>: the event's own time, or the
  clock when the field is absent or zero. \<open>origin_server_ts\<close> is an integer number of
  milliseconds, as Matrix defines it.
\<close>

definition event_time :: "int \<Rightarrow> room_event \<Rightarrow> int" where
  "event_time now event =
     (case origin_server_ts event of
        None \<Rightarrow> now
      | Some ts \<Rightarrow> if ts = 0 then now else ts)"

text \<open>
  The part of the callback after the mention check: the profile query, the thread id, the
  message record and the handler invocation. \<open>trace\<close> is what the run did before. The
  message record is built outside any \<^verbatim>\<open>try\<close>: when the time value is not
  representable, \<^verbatim>\<open>toISOString\<close> throws and the run ends there, after the profile query
  and without the handler invocation.
\<close>

definition dispatch ::
  "collaborators \<Rightarrow> int \<Rightarrow> string \<Rightarrow> room_event \<Rightarrow> message_content \<Rightarrow> string \<Rightarrow>
   MatrixRoomConfig option \<Rightarrow> bool \<Rightarrow> call list \<Rightarrow> outcome \<times> call list" where
  "dispatch client now rid event cont text roomConfig isMain trace =
     (let senderName' =
            (case getUserProfile client (sender event) of
               None \<Rightarrow> sender event
             | Some profile \<Rightarrow> if falsy profile then sender event
                              else (case profile of Some d \<Rightarrow> d | None \<Rightarrow> sender event));
          threadId' =
            (case m_relates_to cont of
               None \<Rightarrow> None
             | Some rel \<Rightarrow> if rel_type rel = Some ''m.thread'' then rel_event_id rel else None)
      in if \<not> representable (event_time now event)
         then (ThrewRangeError, trace @ [GetUserProfile (sender event)])
         else
           (let message =
                  \<lparr>msg_roomId = rid,
                   eventId = event_id event,
                   msg_sender = sender event,
                   senderName = senderName',
                   msg_content = text,
                   timestamp = event_time now event,
                   threadId = threadId'\<rparr>
            in (Processed,
                trace @ [GetUserProfile (sender event), OnMessage message roomConfig isMain])))"

text \<open>
  The \<^verbatim>\<open>room.message\<close> callback registered by \<open>startMatrixMonitor\<close>, for the event
  \<open>event\<close> in room \<open>rid\<close>, with the pairing store \<open>st\<close> as \<open>isPaired\<close> and
  \<open>isMainRoom\<close> read it and the clock reading \<open>now\<close>.
\<close>

definition on_room_message ::
  "engine \<Rightarrow> collaborators \<Rightarrow> MatrixConfig \<Rightarrow> store \<Rightarrow> int \<Rightarrow> string \<Rightarrow> room_event \<Rightarrow>
   outcome \<times> call list" where
  "on_room_message js client config st now rid event =
     (if sender event = userId config then (IgnoredOwnMessage, [])
      else
        (case content event of
           None \<Rightarrow> (IgnoredNonText, [])
         | Some cont \<Rightarrow>
             if msgtype cont \<noteq> Some ''m.text'' \<or> falsy (body cont) then (IgnoredNonText, [])
             else
               (let text = trim js (case body cont of Some b \<Rightarrow> b | None \<Rightarrow> [])
                in if text = [] then (IgnoredEmptyText, [])
                   else
                     (let roomConfig = roomConfig_of config rid
                      in if (case roomConfig of None \<Rightarrow> False | Some rc \<Rightarrow> enabled rc = Some False)
                         then (IgnoredDisabledRoom, [])
                         else
                           (let isMain = (isPaired st \<and> isMainRoom st rid);
                                isDM =
                                  (case getJoinedRoomMembers client rid of
                                     None \<Rightarrow> False
                                   | Some members \<Rightarrow> length members \<le> 2);
                                requireMention' = requireMention_of isDM roomConfig config isMain;
                                trace1 = [GetJoinedRoomMembers rid]
                            in if \<not> requireMention'
                               then dispatch client now rid event cont text roomConfig isMain trace1
                               else if mentionPattern_test client text
                               then dispatch client now rid event cont text roomConfig isMain
                                      (trace1 @ [MentionTest text])
                               else if TRIGGER_PATTERN_test client text
                               then dispatch client now rid event cont text roomConfig isMain
                                      (trace1 @ [MentionTest text, TriggerTest text])
                               else (IgnoredNoMention,
                                     trace1 @ [MentionTest text, TriggerTest text]))))))"

text \<open>Whether a run invoked the downstream handler.\<close>

fun is_OnMessage :: "call \<Rightarrow> bool" where
  "is_OnMessage (OnMessage m rc b) = True"
| "is_OnMessage c = False"

definition handler_invoked :: "outcome \<times> call list \<Rightarrow> bool" where
  "handler_invoked run = list_ex is_OnMessage (snd run)"

subsection \<open>Vocabulary for the admission properties\<close>

text \<open>
  The conditions of the callback's pre-checks, named for the statements below: the event
  is not a text message with a body (second check), the trimmed body, and an event that no
  pre-check rejects.
\<close>

definition non_text :: "room_event \<Rightarrow> bool" where
  "non_text event =
     (case content event of
        None \<Rightarrow> True
      | Some cont \<Rightarrow> msgtype cont \<noteq> Some ''m.text'' \<or> falsy (body cont))"

definition text_of :: "engine \<Rightarrow> room_event \<Rightarrow> string" where
  "text_of js event =
     (case content event of
        None \<Rightarrow> []
      | Some cont \<Rightarrow> trim js (case body cont of Some b \<Rightarrow> b | None \<Rightarrow> []))"

definition room_disabled :: "MatrixConfig \<Rightarrow> string \<Rightarrow> bool" where
  "room_disabled config rid =
     (case roomConfig_of config rid of None \<Rightarrow> False | Some rc \<Rightarrow> enabled rc = Some False)"

definition passes_prechecks :: "engine \<Rightarrow> MatrixConfig \<Rightarrow> string \<Rightarrow> room_event \<Rightarrow> bool" where
  "passes_prechecks js config rid event =
     (sender event \<noteq> userId config \<and> \<not> non_text event \<and> text_of js event \<noteq> []
      \<and> \<not> room_disabled config rid)"

fun is_MentionTest :: "call \<Rightarrow> bool" where
  "is_MentionTest (MentionTest t) = True"
| "is_MentionTest (TriggerTest t) = True"
| "is_MentionTest c = False"

section \<open>Properties of pairing\<close>

subsection \<open>Helper facts\<close>

lemma alphabet_length: "length alphabet = 32"
  by (simp add: alphabet_def)

lemma alphabet_distinct: "distinct alphabet"
  by (simp add: alphabet_def)

lemma alphabet_card: "card (set alphabet) = 32"
  using alphabet_distinct alphabet_length by (simp add: distinct_card)

lemma alphabet_unambiguous:
  "CHR ''0'' \<notin> set alphabet \<and> CHR ''O'' \<notin> set alphabet
   \<and> CHR ''1'' \<notin> set alphabet \<and> CHR ''I'' \<notin> set alphabet"
  by (simp add: alphabet_def)

lemma index_str_in_range:
  "k < length s \<Longrightarrow> length (index_str s k) = 1 \<and> set (index_str s k) \<subseteq> set s"
  by (simp add: index_str_def)

text \<open>
  The loop invariant, by induction along the loop's own recursion: from iteration \<open>i\<close>
  on, each remaining iteration appends one character of the alphabet.
\<close>

lemma generateCode_loop_length:
  "i \<le> PAIRING_CODE_LENGTH \<Longrightarrow>
   \<forall>j. i \<le> j \<and> j < PAIRING_CODE_LENGTH \<longrightarrow> rnd j < length alphabet \<Longrightarrow>
   length (generateCode_loop rnd i acc) = length acc + (PAIRING_CODE_LENGTH - i)"
proof (induction rnd i acc rule: generateCode_loop.induct)
  case (1 rnd i acc)
  show ?case
  proof (cases "i < PAIRING_CODE_LENGTH")
    case True
    have "rnd i < length alphabet" using 1 True by simp
    then have "length (index_str alphabet (rnd i)) = 1" by (simp add: index_str_in_range)
    moreover have "length (generateCode_loop rnd (i + 1) (acc @ index_str alphabet (rnd i)))
        = length (acc @ index_str alphabet (rnd i)) + (PAIRING_CODE_LENGTH - (i + 1))"
      using 1 True by simp
    ultimately show ?thesis using True by (subst generateCode_loop.simps) simp
  next
    case False
    then show ?thesis using 1 by (subst generateCode_loop.simps) simp
  qed
qed

lemma generateCode_loop_set:
  "\<forall>j. i \<le> j \<and> j < PAIRING_CODE_LENGTH \<longrightarrow> rnd j < length alphabet \<Longrightarrow>
   set (generateCode_loop rnd i acc) \<subseteq> set acc \<union> set alphabet"
proof (induction rnd i acc rule: generateCode_loop.induct)
  case (1 rnd i acc)
  show ?case
  proof (cases "i < PAIRING_CODE_LENGTH")
    case True
    have "rnd i < length alphabet" using 1 True by simp
    then have "set (index_str alphabet (rnd i)) \<subseteq> set alphabet" by (simp add: index_str_in_range)
    moreover have "set (generateCode_loop rnd (i + 1) (acc @ index_str alphabet (rnd i)))
        \<subseteq> set (acc @ index_str alphabet (rnd i)) \<union> set alphabet"
      using 1 True by simp
    ultimately show ?thesis using True by (subst generateCode_loop.simps) auto
  next
    case False
    then show ?thesis by (subst generateCode_loop.simps) simp
  qed
qed

lemma generateCode_length:
  "\<forall>i<PAIRING_CODE_LENGTH. rnd i < length alphabet \<Longrightarrow> length (generateCode rnd) = 8"
  using generateCode_loop_length [of 0 rnd "[]"]
  by (simp add: generateCode_def PAIRING_CODE_LENGTH_def)

lemma generateCode_set:
  "\<forall>i<PAIRING_CODE_LENGTH. rnd i < length alphabet \<Longrightarrow> set (generateCode rnd) \<subseteq> set alphabet"
  using generateCode_loop_set [of 0 rnd "[]"]
  by (simp add: generateCode_def)

lemma generateCode_example: "generateCode (\<lambda>i. 4 * i) = ''AEJNSW26''"
  by (simp add: generateCode_def generateCode_loop.simps PAIRING_CODE_LENGTH_def
      index_str_def alphabet_def)

lemma createPairingRequest_fst:
  "fst (createPairingRequest rnd now uid rid rname st) = generateCode rnd"
  by (simp add: createPairingRequest_def Let_def)

lemma createPairingRequest_snd:
  "snd (createPairingRequest rnd now uid rid rname st) =
     st\<lparr>PENDING_PATH := Some \<lparr>code = generateCode rnd, oderId = uid, roomId = rid,
                                 roomName = rname, createdAt = now\<rparr>\<rparr>"
  by (simp add: createPairingRequest_def Let_def saveJson_def)

lemma getOwner_slot: "getOwner st = OWNER_PATH st"
  by (cases "OWNER_PATH st") (simp_all add: getOwner_def loadJson_def)

lemma getPendingPairing_some:
  "PENDING_PATH st = Some p \<Longrightarrow>
   getPendingPairing now st =
     (if now - createdAt p > PAIRING_CODE_TTL_MS then (None, st\<lparr>PENDING_PATH := None\<rparr>)
      else (Some p, st))"
  by (simp add: getPendingPairing_def loadJson_def unlinkSync_def)

lemma getPendingPairing_none:
  "PENDING_PATH st = None \<Longrightarrow> getPendingPairing now st = (None, st)"
  by (simp add: getPendingPairing_def loadJson_def)

lemma approvePairing_none:
  "PENDING_PATH st = None \<Longrightarrow> approvePairing js now now' supplied st = (None, st)"
  by (simp add: approvePairing_def getPendingPairing_none)

lemma approvePairing_some:
  "PENDING_PATH st = Some p \<Longrightarrow> now - createdAt p \<le> PAIRING_CODE_TTL_MS \<Longrightarrow>
   approvePairing js now now' supplied st =
     (if toUpperCase js (code p) \<noteq> toUpperCase js supplied then (None, st)
      else (Some \<lparr>ownerId = oderId p, mainRoomId = roomId p, pairedAt = now'\<rparr>,
            st\<lparr>OWNER_PATH := Some \<lparr>ownerId = oderId p, mainRoomId = roomId p, pairedAt = now'\<rparr>,
               PENDING_PATH := None\<rparr>))"
  by (simp add: approvePairing_def getPendingPairing_some saveJson_def unlinkSync_def Let_def)

lemma toUpperCase_lower_example: "toUpperCase ascii_engine ''abcd2345'' = ''ABCD2345''"
  by code_simp

lemma toUpperCase_upper_example: "toUpperCase ascii_engine ''ABCD2345'' = ''ABCD2345''"
  by code_simp

lemma toUpperCase_other_example: "toUpperCase ascii_engine ''zzzz9999'' = ''ZZZZ9999''"
  by code_simp

subsection \<open>C1: a matching code is redeemed once\<close>

text \<open>
  C1. In a store whose pending record \<open>p\<close> is unexpired, \<open>approvePairing\<close> with a code
  equal to the stored code up to letter case (equal after the engine's
  \<^verbatim>\<open>toUpperCase\<close>) writes the owner built from the requester and
  room of \<open>p\<close>, removes the pending record and returns that owner; any later call with the
  same code, at any time, returns nothing.
\<close>

theorem approvePairing_consumes_code:
  assumes "PENDING_PATH st = Some p"
    and "now - createdAt p \<le> PAIRING_CODE_TTL_MS"
    and "toUpperCase js supplied = toUpperCase js (code p)"
  shows "approvePairing js now now' supplied st =
           (Some \<lparr>ownerId = oderId p, mainRoomId = roomId p, pairedAt = now'\<rparr>,
            st\<lparr>OWNER_PATH := Some \<lparr>ownerId = oderId p, mainRoomId = roomId p, pairedAt = now'\<rparr>,
               PENDING_PATH := None\<rparr>)
       \<and> (\<forall>t t'. fst (approvePairing js t t' supplied
                          (snd (approvePairing js now now' supplied st))) = None)"
proof -
  let ?ow = "\<lparr>ownerId = oderId p, mainRoomId = roomId p, pairedAt = now'\<rparr>"
  let ?st' = "st\<lparr>OWNER_PATH := Some ?ow, PENDING_PATH := None\<rparr>"
  have first: "approvePairing js now now' supplied st = (Some ?ow, ?st')"
    using assms by (simp add: approvePairing_some)
  have "PENDING_PATH ?st' = None" by simp
  then have "\<forall>t t'. approvePairing js t t' supplied ?st' = (None, ?st')"
    by (simp add: approvePairing_none)
  with first show ?thesis by simp
qed

theorem approvePairing_consumes_code_witness:
  "approvePairing ascii_engine 601000 601005 ''abcd2345''
     \<lparr>OWNER_PATH = None,
      PENDING_PATH = Some \<lparr>code = ''ABCD2345'', oderId = ''@alice:m.org'',
        roomId = ''!r1:m.org'', roomName = ''Ops'', createdAt = 1000\<rparr>\<rparr>
   = (Some \<lparr>ownerId = ''@alice:m.org'', mainRoomId = ''!r1:m.org'', pairedAt = 601005\<rparr>,
      \<lparr>OWNER_PATH = Some \<lparr>ownerId = ''@alice:m.org'', mainRoomId = ''!r1:m.org'',
         pairedAt = 601005\<rparr>,
       PENDING_PATH = None\<rparr>)
   \<and> fst (approvePairing ascii_engine 601006 601007 ''abcd2345''
        (snd (approvePairing ascii_engine 601000 601005 ''abcd2345''
          \<lparr>OWNER_PATH = None,
           PENDING_PATH = Some \<lparr>code = ''ABCD2345'', oderId = ''@alice:m.org'',
             roomId = ''!r1:m.org'', roomName = ''Ops'', createdAt = 1000\<rparr>\<rparr>))) = None"
proof -
  let ?p = "\<lparr>code = ''ABCD2345'', oderId = ''@alice:m.org'',
        roomId = ''!r1:m.org'', roomName = ''Ops'', createdAt = 1000\<rparr>"
  let ?st = "\<lparr>OWNER_PATH = None, PENDING_PATH = Some ?p\<rparr>"
  have h1: "PENDING_PATH ?st = Some ?p" by simp
  have h2: "601000 - createdAt ?p \<le> PAIRING_CODE_TTL_MS"
    by (simp add: PAIRING_CODE_TTL_MS_def)
  have h3: "toUpperCase ascii_engine ''abcd2345'' = toUpperCase ascii_engine (code ?p)"
    by (simp add: toUpperCase_lower_example toUpperCase_upper_example)
  note inst = approvePairing_consumes_code [OF h1 h2 h3, of 601005]
  have a: "approvePairing ascii_engine 601000 601005 ''abcd2345'' ?st
      = (Some \<lparr>ownerId = ''@alice:m.org'', mainRoomId = ''!r1:m.org'', pairedAt = 601005\<rparr>,
         \<lparr>OWNER_PATH = Some \<lparr>ownerId = ''@alice:m.org'', mainRoomId = ''!r1:m.org'',
            pairedAt = 601005\<rparr>,
          PENDING_PATH = None\<rparr>)"
    using inst [THEN conjunct1] by simp
  have b: "fst (approvePairing ascii_engine 601006 601007 ''abcd2345''
        (snd (approvePairing ascii_engine 601000 601005 ''abcd2345'' ?st))) = None"
    by (rule inst [THEN conjunct2, THEN spec, THEN spec])
  from a b show ?thesis by (rule conjI)
qed

subsection \<open>C2: a wrong code leaves the request in place\<close>

text \<open>
  C2. In a store whose pending record \<open>p\<close> is unexpired, \<open>approvePairing\<close> with a code
  that does not match the stored one case-insensitively (the two differ after the engine's
  \<^verbatim>\<open>toUpperCase\<close>, whatever Unicode case mapping it has) returns nothing and leaves the store
  as it was; in the store it leaves, \<open>getPendingPairing\<close> still returns \<open>p\<close> at every
  time within the TTL, and the right code is still accepted then.
\<close>

theorem approvePairing_wrong_code_keeps_pending:
  assumes "PENDING_PATH st = Some p"
    and "now - createdAt p \<le> PAIRING_CODE_TTL_MS"
    and "toUpperCase js supplied \<noteq> toUpperCase js (code p)"
  shows "approvePairing js now now' supplied st = (None, st)
       \<and> (\<forall>t. t - createdAt p \<le> PAIRING_CODE_TTL_MS \<longrightarrow>
             getPendingPairing t (snd (approvePairing js now now' supplied st)) = (Some p, st))
       \<and> (\<forall>t t'. t - createdAt p \<le> PAIRING_CODE_TTL_MS \<longrightarrow>
             fst (approvePairing js t t' (code p) (snd (approvePairing js now now' supplied st)))
               = Some \<lparr>ownerId = oderId p, mainRoomId = roomId p, pairedAt = t'\<rparr>)"
proof -
  have first: "approvePairing js now now' supplied st = (None, st)"
    using assms approvePairing_some [of st p now js now' supplied] by (simp add: neq_commute)
  have "\<forall>t. t - createdAt p \<le> PAIRING_CODE_TTL_MS \<longrightarrow> getPendingPairing t st = (Some p, st)"
    using assms(1) by (simp add: getPendingPairing_some)
  moreover have "\<forall>t t'. t - createdAt p \<le> PAIRING_CODE_TTL_MS \<longrightarrow>
             fst (approvePairing js t t' (code p) st)
               = Some \<lparr>ownerId = oderId p, mainRoomId = roomId p, pairedAt = t'\<rparr>"
    using assms(1) by (simp add: approvePairing_some)
  ultimately show ?thesis using first by simp
qed

theorem approvePairing_wrong_code_keeps_pending_witness:
  "approvePairing ascii_engine 2000 2001 ''zzzz9999''
     \<lparr>OWNER_PATH = None,
      PENDING_PATH = Some \<lparr>code = ''ABCD2345'', oderId = ''@alice:m.org'',
        roomId = ''!r1:m.org'', roomName = ''Ops'', createdAt = 1000\<rparr>\<rparr>
   = (None,
      \<lparr>OWNER_PATH = None,
       PENDING_PATH = Some \<lparr>code = ''ABCD2345'', oderId = ''@alice:m.org'',
         roomId = ''!r1:m.org'', roomName = ''Ops'', createdAt = 1000\<rparr>\<rparr>)
   \<and> fst (getPendingPairing 601000
        (snd (approvePairing ascii_engine 2000 2001 ''zzzz9999''
          \<lparr>OWNER_PATH = None,
           PENDING_PATH = Some \<lparr>code = ''ABCD2345'', oderId = ''@alice:m.org'',
             roomId = ''!r1:m.org'', roomName = ''Ops'', createdAt = 1000\<rparr>\<rparr>)))
     = Some \<lparr>code = ''ABCD2345'', oderId = ''@alice:m.org'',
         roomId = ''!r1:m.org'', roomName = ''Ops'', createdAt = 1000\<rparr>"
proof -
  let ?p = "\<lparr>code = ''ABCD2345'', oderId = ''@alice:m.org'',
        roomId = ''!r1:m.org'', roomName = ''Ops'', createdAt = 1000\<rparr>"
  let ?st = "\<lparr>OWNER_PATH = None, PENDING_PATH = Some ?p\<rparr>"
  have h1: "PENDING_PATH ?st = Some ?p" by simp
  have h2: "2000 - createdAt ?p \<le> PAIRING_CODE_TTL_MS"
    by (simp add: PAIRING_CODE_TTL_MS_def)
  have h3: "toUpperCase ascii_engine ''zzzz9999'' \<noteq> toUpperCase ascii_engine (code ?p)"
    by (simp add: toUpperCase_other_example toUpperCase_upper_example)
  have h4: "601000 - createdAt ?p \<le> PAIRING_CODE_TTL_MS"
    by (simp add: PAIRING_CODE_TTL_MS_def)
  note inst = approvePairing_wrong_code_keeps_pending [OF h1 h2 h3, of 2001]
  have a: "approvePairing ascii_engine 2000 2001 ''zzzz9999'' ?st = (None, ?st)"
    by (rule inst [THEN conjunct1])
  have "getPendingPairing 601000 (snd (approvePairing ascii_engine 2000 2001 ''zzzz9999'' ?st))
      = (Some ?p, ?st)"
    using inst [THEN conjunct2, THEN conjunct1, THEN spec, of 601000] h4 by blast
  then have b: "fst (getPendingPairing 601000
      (snd (approvePairing ascii_engine 2000 2001 ''zzzz9999'' ?st))) = Some ?p"
    by simp
  from a b show ?thesis by (rule conjI)
qed

subsection \<open>C3: pending requests expire when read\<close>

text \<open>
  C3. In a store whose pending file holds \<open>p\<close>, \<open>getPendingPairing\<close> at time \<open>now\<close>
  returns \<open>p\<close> and leaves the store alone when \<open>now - createdAt p\<close> is at most ten
  minutes, and removes the file and returns nothing when it is more. Right after
  \<open>createPairingRequest\<close> at time \<open>t\<close> the record just written is in the file whatever time
  passes, and a read at \<open>t'\<close> returns it exactly when \<open>t' - t\<close> is within the TTL: the
  expiry happens in the read that observes it.
\<close>

theorem getPendingPairing_lazy_expiry:
  assumes "PENDING_PATH st = Some p"
  shows "(now - createdAt p \<le> PAIRING_CODE_TTL_MS \<longrightarrow> getPendingPairing now st = (Some p, st))
       \<and> (now - createdAt p > PAIRING_CODE_TTL_MS \<longrightarrow>
            getPendingPairing now st = (None, st\<lparr>PENDING_PATH := None\<rparr>))
       \<and> PAIRING_CODE_TTL_MS = 600000
       \<and> (\<forall>rnd t uid rid rname st0 t'.
            PENDING_PATH (snd (createPairingRequest rnd t uid rid rname st0))
              = Some \<lparr>code = fst (createPairingRequest rnd t uid rid rname st0), oderId = uid,
                      roomId = rid, roomName = rname, createdAt = t\<rparr>
            \<and> getPendingPairing t' (snd (createPairingRequest rnd t uid rid rname st0))
              = (if t' - t \<le> PAIRING_CODE_TTL_MS
                 then (Some \<lparr>code = fst (createPairingRequest rnd t uid rid rname st0),
                              oderId = uid, roomId = rid, roomName = rname, createdAt = t\<rparr>,
                       snd (createPairingRequest rnd t uid rid rname st0))
                 else (None,
                       (snd (createPairingRequest rnd t uid rid rname st0))
                         \<lparr>PENDING_PATH := None\<rparr>)))"
proof (intro conjI allI)
  show "now - createdAt p \<le> PAIRING_CODE_TTL_MS \<longrightarrow> getPendingPairing now st = (Some p, st)"
    using assms by (simp add: getPendingPairing_some)
  show "now - createdAt p > PAIRING_CODE_TTL_MS \<longrightarrow>
            getPendingPairing now st = (None, st\<lparr>PENDING_PATH := None\<rparr>)"
    using assms by (simp add: getPendingPairing_some)
  show "PAIRING_CODE_TTL_MS = 600000"
    by (simp add: PAIRING_CODE_TTL_MS_def)
next
  fix rnd t uid rid rname st0 t'
  let ?run = "createPairingRequest rnd t uid rid rname st0"
  let ?rec = "\<lparr>code = fst ?run, oderId = uid, roomId = rid, roomName = rname, createdAt = t\<rparr>"
  show slot: "PENDING_PATH (snd ?run) = Some ?rec"
    by (simp add: createPairingRequest_snd createPairingRequest_fst)
  show "getPendingPairing t' (snd ?run)
      = (if t' - t \<le> PAIRING_CODE_TTL_MS then (Some ?rec, snd ?run)
         else (None, (snd ?run)\<lparr>PENDING_PATH := None\<rparr>))"
    using getPendingPairing_some [OF slot, of t'] by simp
qed

theorem getPendingPairing_lazy_expiry_witness:
  "getPendingPairing 601000
     \<lparr>OWNER_PATH = None,
      PENDING_PATH = Some \<lparr>code = ''ABCD2345'', oderId = ''@alice:m.org'',
        roomId = ''!r1:m.org'', roomName = ''Ops'', createdAt = 1000\<rparr>\<rparr>
   = (Some \<lparr>code = ''ABCD2345'', oderId = ''@alice:m.org'',
        roomId = ''!r1:m.org'', roomName = ''Ops'', createdAt = 1000\<rparr>,
      \<lparr>OWNER_PATH = None,
       PENDING_PATH = Some \<lparr>code = ''ABCD2345'', oderId = ''@alice:m.org'',
         roomId = ''!r1:m.org'', roomName = ''Ops'', createdAt = 1000\<rparr>\<rparr>)
   \<and> getPendingPairing 601001
     \<lparr>OWNER_PATH = None,
      PENDING_PATH = Some \<lparr>code = ''ABCD2345'', oderId = ''@alice:m.org'',
        roomId = ''!r1:m.org'', roomName = ''Ops'', createdAt = 1000\<rparr>\<rparr>
   = (None, \<lparr>OWNER_PATH = None, PENDING_PATH = None\<rparr>)"
proof -
  let ?p = "\<lparr>code = ''ABCD2345'', oderId = ''@alice:m.org'',
        roomId = ''!r1:m.org'', roomName = ''Ops'', createdAt = 1000\<rparr>"
  let ?st = "\<lparr>OWNER_PATH = None, PENDING_PATH = Some ?p\<rparr>"
  have h: "PENDING_PATH ?st = Some ?p" by simp
  have fresh: "601000 - createdAt ?p \<le> PAIRING_CODE_TTL_MS"
    by (simp add: PAIRING_CODE_TTL_MS_def)
  have stale: "601001 - createdAt ?p > PAIRING_CODE_TTL_MS"
    by (simp add: PAIRING_CODE_TTL_MS_def)
  have a: "getPendingPairing 601000 ?st = (Some ?p, ?st)"
    using getPendingPairing_lazy_expiry [OF h, of 601000, THEN conjunct1] fresh by blast
  have "getPendingPairing 601001 ?st = (None, ?st\<lparr>PENDING_PATH := None\<rparr>)"
    using getPendingPairing_lazy_expiry [OF h, of 601001, THEN conjunct2, THEN conjunct1] stale
    by blast
  then have b: "getPendingPairing 601001 ?st = (None, \<lparr>OWNER_PATH = None, PENDING_PATH = None\<rparr>)"
    by simp
  from a b show ?thesis by (rule conjI)
qed

subsection \<open>C6: the shape of generated codes\<close>

text \<open>
  The alphabet of \<open>generateCode\<close> has 32 symbols, not 33: the 26 capital letters without
  \<open>I\<close> and \<open>O\<close>, and the digits \<open>2\<close> to \<open>9\<close>.
\<close>

theorem alphabet_size_counterexample:
  "card (set alphabet) = 32 \<and> length alphabet = 32 \<and> card (set alphabet) \<noteq> 33"
  by (simp add: alphabet_card alphabet_length)

lemma generateCode_constant:
  "k < length alphabet \<Longrightarrow>
   generateCode (\<lambda>i. k) = [alphabet ! k, alphabet ! k, alphabet ! k, alphabet ! k,
                            alphabet ! k, alphabet ! k, alphabet ! k, alphabet ! k]"
  by (simp add: generateCode_def generateCode_loop.simps PAIRING_CODE_LENGTH_def index_str_def)

text \<open>
  C6, with the alphabet's size as the code has it. Whenever the eight random draws lie in
  the range \<^verbatim>\<open>crypto.randomInt\<close> promises, the code \<open>createPairingRequest\<close> returns has
  length 8 and all its characters are in the alphabet; the alphabet has 32 distinct
  symbols, none of them \<open>0\<close>, \<open>O\<close>, \<open>1\<close> or \<open>I\<close>; and each of the 32 occurs in some code.
\<close>

theorem generated_code_shape:
  assumes "\<forall>i<PAIRING_CODE_LENGTH. rnd i < length alphabet"
  shows "length (fst (createPairingRequest rnd now uid rid rname st)) = 8
       \<and> set (fst (createPairingRequest rnd now uid rid rname st)) \<subseteq> set alphabet
       \<and> card (set alphabet) = 32
       \<and> set alphabet \<inter> {CHR ''0'', CHR ''O'', CHR ''1'', CHR ''I''} = {}
       \<and> (\<forall>c \<in> set alphabet. \<exists>rnd'. (\<forall>i<PAIRING_CODE_LENGTH. rnd' i < length alphabet)
             \<and> c \<in> set (fst (createPairingRequest rnd' now uid rid rname st)))"
proof -
  have "\<exists>rnd'. (\<forall>i<PAIRING_CODE_LENGTH. rnd' i < length alphabet)
             \<and> c \<in> set (fst (createPairingRequest rnd' now uid rid rname st))"
    if "c \<in> set alphabet" for c
  proof -
    from that obtain k where k: "k < length alphabet" "alphabet ! k = c"
      by (auto simp: in_set_conv_nth)
    have "c \<in> set (generateCode (\<lambda>i. k))"
      using k by (simp add: generateCode_constant)
    with k(1) show ?thesis
      by (intro exI [of _ "\<lambda>i. k"]) (simp add: createPairingRequest_fst)
  qed
  then show ?thesis
    using assms generateCode_length [of rnd] generateCode_set [of rnd]
      alphabet_card alphabet_unambiguous
    by (simp add: createPairingRequest_fst)
qed

theorem generated_code_shape_witness:
  "fst (createPairingRequest (\<lambda>i. 4 * i) 0 ''@u:m.org'' ''!r:m.org'' ''Room''
            \<lparr>OWNER_PATH = None, PENDING_PATH = None\<rparr>) = ''AEJNSW26''
   \<and> length (fst (createPairingRequest (\<lambda>i. 4 * i) 0 ''@u:m.org'' ''!r:m.org'' ''Room''
            \<lparr>OWNER_PATH = None, PENDING_PATH = None\<rparr>)) = 8
   \<and> set (fst (createPairingRequest (\<lambda>i. 4 * i) 0 ''@u:m.org'' ''!r:m.org'' ''Room''
            \<lparr>OWNER_PATH = None, PENDING_PATH = None\<rparr>)) \<subseteq> set alphabet"
proof -
  have h: "\<forall>i<PAIRING_CODE_LENGTH. (\<lambda>i. 4 * i) i < length alphabet"
    by (simp add: PAIRING_CODE_LENGTH_def alphabet_length)
  have e: "fst (createPairingRequest (\<lambda>i. 4 * i) 0 ''@u:m.org'' ''!r:m.org'' ''Room''
            \<lparr>OWNER_PATH = None, PENDING_PATH = None\<rparr>) = ''AEJNSW26''"
    by (simp add: createPairingRequest_fst generateCode_example)
  note inst = generated_code_shape [OF h, of 0 "''@u:m.org''" "''!r:m.org''" "''Room''"
        "\<lparr>OWNER_PATH = None, PENDING_PATH = None\<rparr>"]
  from e inst [THEN conjunct1] inst [THEN conjunct2, THEN conjunct1]
  show ?thesis by (intro conjI)
qed

subsection \<open>C9: approval does not look at the owner\<close>

text \<open>
  C9. \<open>approvePairing\<close> never reads the owner file. In a store that already has an owner
  and an unexpired pending record whose code matches up to case, it replaces the owner by
  the one built from the pending record, and its answer is the same whatever the owner
  file held. The command, run on that same store, exits with status 1 and changes nothing:
  the refusal to pair again is the command's.
\<close>

theorem approvePairing_overwrites_owner:
  assumes "OWNER_PATH st = Some old"
    and "PENDING_PATH st = Some p"
    and "now - createdAt p \<le> PAIRING_CODE_TTL_MS"
    and "toUpperCase js supplied = toUpperCase js (code p)"
  shows "approvePairing js now now' supplied st =
           (Some \<lparr>ownerId = oderId p, mainRoomId = roomId p, pairedAt = now'\<rparr>,
            st\<lparr>OWNER_PATH := Some \<lparr>ownerId = oderId p, mainRoomId = roomId p, pairedAt = now'\<rparr>,
               PENDING_PATH := None\<rparr>)
       \<and> (\<forall>x. fst (approvePairing js now now' supplied (st\<lparr>OWNER_PATH := x\<rparr>))
               = Some \<lparr>ownerId = oderId p, mainRoomId = roomId p, pairedAt = now'\<rparr>)
       \<and> exit_status (pair_cli js toISO data_dir main_folder now (Some supplied)
            (w\<lparr>pairing := st\<rparr>)) = 1
       \<and> world_after (pair_cli js toISO data_dir main_folder now (Some supplied)
            (w\<lparr>pairing := st\<rparr>)) = w\<lparr>pairing := st\<rparr>"
proof (intro conjI allI)
  show "approvePairing js now now' supplied st =
           (Some \<lparr>ownerId = oderId p, mainRoomId = roomId p, pairedAt = now'\<rparr>,
            st\<lparr>OWNER_PATH := Some \<lparr>ownerId = oderId p, mainRoomId = roomId p, pairedAt = now'\<rparr>,
               PENDING_PATH := None\<rparr>)"
    using assms by (simp add: approvePairing_some)
next
  fix x
  have "PENDING_PATH (st\<lparr>OWNER_PATH := x\<rparr>) = Some p" using assms(2) by simp
  then show "fst (approvePairing js now now' supplied (st\<lparr>OWNER_PATH := x\<rparr>))
               = Some \<lparr>ownerId = oderId p, mainRoomId = roomId p, pairedAt = now'\<rparr>"
    using assms(3,4) by (simp add: approvePairing_some)
next
  have pend: "getPendingPairing now st = (Some p, st)"
    using assms(2,3) by (simp add: getPendingPairing_some)
  show "exit_status (pair_cli js toISO data_dir main_folder now (Some supplied)
            (w\<lparr>pairing := st\<rparr>)) = 1"
    using assms(1) pend by (simp add: pair_cli_def getOwner_slot)
  show "world_after (pair_cli js toISO data_dir main_folder now (Some supplied)
            (w\<lparr>pairing := st\<rparr>)) = w\<lparr>pairing := st\<rparr>"
    using assms(1) pend by (simp add: pair_cli_def getOwner_slot)
qed

theorem approvePairing_overwrites_owner_witness:
  "approvePairing ascii_engine 2000 2001 ''abcd2345''
     \<lparr>OWNER_PATH = Some \<lparr>ownerId = ''@bob:m.org'', mainRoomId = ''!r0:m.org'', pairedAt = 5\<rparr>,
      PENDING_PATH = Some \<lparr>code = ''ABCD2345'', oderId = ''@alice:m.org'',
        roomId = ''!r1:m.org'', roomName = ''Ops'', createdAt = 1000\<rparr>\<rparr>
   = (Some \<lparr>ownerId = ''@alice:m.org'', mainRoomId = ''!r1:m.org'', pairedAt = 2001\<rparr>,
      \<lparr>OWNER_PATH = Some \<lparr>ownerId = ''@alice:m.org'', mainRoomId = ''!r1:m.org'',
         pairedAt = 2001\<rparr>,
       PENDING_PATH = None\<rparr>)"
proof -
  let ?old = "\<lparr>ownerId = ''@bob:m.org'', mainRoomId = ''!r0:m.org'', pairedAt = 5\<rparr>"
  let ?p = "\<lparr>code = ''ABCD2345'', oderId = ''@alice:m.org'',
        roomId = ''!r1:m.org'', roomName = ''Ops'', createdAt = 1000\<rparr>"
  let ?st = "\<lparr>OWNER_PATH = Some ?old, PENDING_PATH = Some ?p\<rparr>"
  have h0: "OWNER_PATH ?st = Some ?old" by simp
  have h1: "PENDING_PATH ?st = Some ?p" by simp
  have h2: "2000 - createdAt ?p \<le> PAIRING_CODE_TTL_MS"
    by (simp add: PAIRING_CODE_TTL_MS_def)
  have h3: "toUpperCase ascii_engine ''abcd2345'' = toUpperCase ascii_engine (code ?p)"
    by (simp add: toUpperCase_lower_example toUpperCase_upper_example)
  show ?thesis
    using approvePairing_overwrites_owner [OF h0 h1 h2 h3, of 2001, THEN conjunct1] by simp
qed

section \<open>Properties of the pairing command\<close>

text \<open>
  C8. Run with a code (a non-empty argument; the command takes an empty one as no code)
  while an owner file exists, the command writes the owner's data to the error stream and
  exits with status 1, whatever the code is and whatever pending record there is. The
  world is left as it was: no owner is written and no pending record is consumed, so
  \<open>approvePairing\<close> has not run.
\<close>

theorem pair_cli_refuses_when_paired:
  assumes "OWNER_PATH (pairing w) = Some existingOwner"
    and "supplied \<noteq> []"
  shows "pair_cli js toISO data_dir main_folder now (Some supplied) w =
           \<lparr>exit_status = 1,
            stderr =
              [''NanoClaw is already paired!'',
               ''  Owner: '' @ ownerId existingOwner,
               ''  Main Room: '' @ mainRoomId existingOwner,
               ''  Paired: '' @ toISO (pairedAt existingOwner),
               [],
               ''To reset, delete data/owner.json and restart NanoClaw.''],
            stdout = [],
            world_after = w\<rparr>"
  using assms by (simp add: pair_cli_def falsy_def getOwner_slot)

theorem pair_cli_refuses_when_paired_witness:
  "pair_cli ascii_engine (\<lambda>t. ''1970-01-01T00:00:00.005Z'') ''data'' ''main'' 2000 (Some ''abcd2345'')
     \<lparr>pairing =
        \<lparr>OWNER_PATH = Some \<lparr>ownerId = ''@bob:m.org'', mainRoomId = ''!r0:m.org'', pairedAt = 5\<rparr>,
         PENDING_PATH = Some \<lparr>code = ''ABCD2345'', oderId = ''@alice:m.org'',
           roomId = ''!r1:m.org'', roomName = ''Ops'', createdAt = 1000\<rparr>\<rparr>,
      registered_groups = None,
      directories = []\<rparr>
   = \<lparr>exit_status = 1,
      stderr =
        [''NanoClaw is already paired!'',
         ''  Owner: @bob:m.org'',
         ''  Main Room: !r0:m.org'',
         ''  Paired: 1970-01-01T00:00:00.005Z'',
         [],
         ''To reset, delete data/owner.json and restart NanoClaw.''],
      stdout = [],
      world_after =
        \<lparr>pairing =
           \<lparr>OWNER_PATH = Some \<lparr>ownerId = ''@bob:m.org'', mainRoomId = ''!r0:m.org'',
              pairedAt = 5\<rparr>,
            PENDING_PATH = Some \<lparr>code = ''ABCD2345'', oderId = ''@alice:m.org'',
              roomId = ''!r1:m.org'', roomName = ''Ops'', createdAt = 1000\<rparr>\<rparr>,
         registered_groups = None,
         directories = []\<rparr>\<rparr>"
proof -
  let ?old = "\<lparr>ownerId = ''@bob:m.org'', mainRoomId = ''!r0:m.org'', pairedAt = 5\<rparr>"
  let ?p = "\<lparr>code = ''ABCD2345'', oderId = ''@alice:m.org'',
        roomId = ''!r1:m.org'', roomName = ''Ops'', createdAt = 1000\<rparr>"
  let ?w = "\<lparr>pairing = \<lparr>OWNER_PATH = Some ?old, PENDING_PATH = Some ?p\<rparr>,
      registered_groups = None, directories = []\<rparr>"
  have h0: "OWNER_PATH (pairing ?w) = Some ?old" by simp
  have h1: "''abcd2345'' \<noteq> []" by simp
  show ?thesis
    using pair_cli_refuses_when_paired [OF h0 h1, of ascii_engine "\<lambda>t. ''1970-01-01T00:00:00.005Z''"
        "''data''" "''main''" 2000]
    by simp
qed

section \<open>Properties of configuration loading\<close>

text \<open>
  The claim has the missing-credentials error raised only when a variable is unset. The
  code tests \<^verbatim>\<open>!homeserver || !userId || !accessToken\<close>, which is also true of a
  variable set to the empty string: with no file, all three variables set and the token
  empty, the error is raised.
\<close>

theorem empty_credential_counterexample:
  "loadMatrixConfig (Map.empty :: string \<Rightarrow> unit option) None
     \<lparr>MATRIX_HOMESERVER = Some ''https://m.org'', MATRIX_USER_ID = Some ''@bot:m.org'',
      MATRIX_ACCESS_TOKEN = Some [], MATRIX_ENCRYPTION = None,
      MATRIX_REQUIRE_MENTION = None\<rparr>
   = Inl CredentialsNotConfigured"
  by (simp add: loadMatrixConfig_def falsy_def)

text \<open>
  C10, with the condition as the code has it. When \<^verbatim>\<open>matrix_config.json\<close> exists,
  \<open>loadMatrixConfig\<close> returns what \<^verbatim>\<open>JSON.parse\<close> made of it, whatever that value is,
  and never raises the missing-credentials error. That error is raised exactly when the
  file is absent and one of the three variables is unset or empty.
\<close>

theorem loadMatrixConfig_file_unvalidated:
  "(\<forall>txt j. JSON_parse txt = Some j \<longrightarrow>
       loadMatrixConfig JSON_parse (Some txt) env = Inr (FromFile j))
   \<and> (\<forall>txt. loadMatrixConfig JSON_parse (Some txt) env \<noteq> Inl CredentialsNotConfigured)
   \<and> ((loadMatrixConfig JSON_parse config_file env = Inl CredentialsNotConfigured)
        = (config_file = None
           \<and> ((MATRIX_HOMESERVER env = None \<or> MATRIX_HOMESERVER env = Some [])
                \<or> (MATRIX_USER_ID env = None \<or> MATRIX_USER_ID env = Some [])
                \<or> (MATRIX_ACCESS_TOKEN env = None \<or> MATRIX_ACCESS_TOKEN env = Some []))))"
  by (auto simp: loadMatrixConfig_def falsy_def split: option.splits)

theorem loadMatrixConfig_file_unvalidated_witness:
  "loadMatrixConfig (\<lambda>s. if s = ''{}'' then Some ([] :: (string \<times> string) list) else None)
     (Some ''{}'')
     \<lparr>MATRIX_HOMESERVER = None, MATRIX_USER_ID = None, MATRIX_ACCESS_TOKEN = None,
      MATRIX_ENCRYPTION = None, MATRIX_REQUIRE_MENTION = None\<rparr>
   = Inr (FromFile [])"
proof -
  let ?parse = "\<lambda>s. if s = ''{}'' then Some ([] :: (string \<times> string) list) else None"
  have h: "?parse ''{}'' = Some []" by simp
  show ?thesis
    using loadMatrixConfig_file_unvalidated [of ?parse _ "None", THEN conjunct1,
        THEN spec, THEN spec, THEN mp, OF h]
    by simp
qed

section \<open>Properties of message admission\<close>

subsection \<open>Helper facts\<close>

lemma handler_invoked_dispatch:
  "\<not> list_ex is_OnMessage trace \<Longrightarrow>
   handler_invoked (dispatch client now rid event cont text roomConfig isMain trace)
   = representable (event_time now event)"
  by (simp add: dispatch_def handler_invoked_def Let_def)

lemma fst_dispatch:
  "fst (dispatch client now rid event cont text roomConfig isMain trace)
   = (if representable (event_time now event) then Processed else ThrewRangeError)"
  by (simp add: dispatch_def Let_def)

lemma mention_tests_dispatch:
  "list_ex is_MentionTest
     (snd (dispatch client now rid event cont text roomConfig isMain trace))
   = list_ex is_MentionTest trace"
  by (simp add: dispatch_def Let_def)

lemma isMain_slot:
  "(isPaired st \<and> isMainRoom st rid)
   = (case OWNER_PATH st of None \<Rightarrow> False | Some ow \<Rightarrow> mainRoomId ow = rid)"
  by (simp add: isPaired_def isMainRoom_def getOwner_slot split: option.splits)

text \<open>
  The callback as a cascade: the four pre-checks in the order of the source, each
  leaving with nothing done, and otherwise the admission decision.
\<close>

lemma on_room_message_prechecks:
  "on_room_message js client config st now rid event =
     (if sender event = userId config then (IgnoredOwnMessage, [])
      else if non_text event then (IgnoredNonText, [])
      else if text_of js event = [] then (IgnoredEmptyText, [])
      else if room_disabled config rid then (IgnoredDisabledRoom, [])
      else on_room_message js client config st now rid event)"
  by (simp add: on_room_message_def non_text_def text_of_def room_disabled_def Let_def
      split: option.splits)

lemma on_room_message_admission:
  assumes "passes_prechecks js config rid event" and "content event = Some cont"
  shows "on_room_message js client config st now rid event =
     (let isMain = (isPaired st \<and> isMainRoom st rid);
          isDM = (case getJoinedRoomMembers client rid of
                    None \<Rightarrow> False | Some members \<Rightarrow> length members \<le> 2);
          required = requireMention_of isDM (roomConfig_of config rid) config isMain
      in if \<not> required
         then dispatch client now rid event cont (text_of js event) (roomConfig_of config rid)
                isMain [GetJoinedRoomMembers rid]
         else if mentionPattern_test client (text_of js event)
         then dispatch client now rid event cont (text_of js event) (roomConfig_of config rid)
                isMain [GetJoinedRoomMembers rid, MentionTest (text_of js event)]
         else if TRIGGER_PATTERN_test client (text_of js event)
         then dispatch client now rid event cont (text_of js event) (roomConfig_of config rid)
                isMain [GetJoinedRoomMembers rid, MentionTest (text_of js event),
                        TriggerTest (text_of js event)]
         else (IgnoredNoMention,
               [GetJoinedRoomMembers rid, MentionTest (text_of js event),
                TriggerTest (text_of js event)]))"
  using assms
  by (simp add: on_room_message_def passes_prechecks_def non_text_def text_of_def
      room_disabled_def Let_def split: option.splits)

lemma passes_prechecks_content:
  "passes_prechecks js config rid event \<Longrightarrow> \<exists>cont. content event = Some cont"
  by (cases "content event") (simp_all add: passes_prechecks_def non_text_def)

text \<open>
  What the callback does with an event that no pre-check rejects: the handler is invoked
  exactly when no mention is required or a pattern matches, and the event's time is
  representable. A mention is required never in a direct message, and otherwise as the
  room's setting, else the global setting, else the room not being the main room says.
\<close>

lemma handler_invoked_admission:
  assumes "passes_prechecks js config rid event"
  shows "handler_invoked (on_room_message js client config st now rid event) =
     ((\<not> (if (case getJoinedRoomMembers client rid of
                 None \<Rightarrow> False | Some members \<Rightarrow> length members \<le> 2)
           then False
           else (case (case rooms config of
                         None \<Rightarrow> None
                       | Some rs \<Rightarrow>
                           (case rs rid of None \<Rightarrow> None | Some rc \<Rightarrow> room_requireMention rc)) of
                   Some b \<Rightarrow> b
                 | None \<Rightarrow>
                     (case requireMention config of
                        Some b \<Rightarrow> b
                      | None \<Rightarrow>
                          \<not> (case OWNER_PATH st of
                               None \<Rightarrow> False | Some ow \<Rightarrow> mainRoomId ow = rid))))
       \<or> mentionPattern_test client (text_of js event)
       \<or> TRIGGER_PATTERN_test client (text_of js event))
      \<and> representable (event_time now event))"
proof -
  obtain cont where c: "content event = Some cont"
    using passes_prechecks_content [OF assms] by blast
  show ?thesis
    unfolding on_room_message_admission [OF assms c] Let_def
    by (simp add: handler_invoked_dispatch requireMention_of_def roomConfig_of_def isMain_slot
        split: option.splits)
      (simp add: handler_invoked_def)
qed

lemma outcome_admission:
  assumes "passes_prechecks js config rid event"
  shows "fst (on_room_message js client config st now rid event) =
     (if \<not> requireMention_of
          (case getJoinedRoomMembers client rid of
             None \<Rightarrow> False | Some members \<Rightarrow> length members \<le> 2)
          (roomConfig_of config rid) config (isPaired st \<and> isMainRoom st rid)
        \<or> mentionPattern_test client (text_of js event)
        \<or> TRIGGER_PATTERN_test client (text_of js event)
      then (if representable (event_time now event) then Processed else ThrewRangeError)
      else IgnoredNoMention)"
proof -
  obtain cont where c: "content event = Some cont"
    using passes_prechecks_content [OF assms] by blast
  show ?thesis
    unfolding on_room_message_admission [OF assms c] Let_def
    by (simp add: fst_dispatch)
qed

subsection \<open>C7: the pre-checks come first\<close>

lemma on_room_message_disabled:
  "room_disabled config rid \<Longrightarrow>
   on_room_message js client config st now rid event =
     (if sender event = userId config then (IgnoredOwnMessage, [])
      else if non_text event then (IgnoredNonText, [])
      else if text_of js event = [] then (IgnoredEmptyText, [])
      else (IgnoredDisabledRoom, []))"
  by (simp add: on_room_message_def non_text_def text_of_def room_disabled_def Let_def
      split: option.splits)

text \<open>
  C7. For every event, the callback first tests the sender, then the message type and
  body, then the trimmed body, then the room's \<open>enabled\<close> flag, and leaves at the first
  test that matches with nothing done: no membership query, no pattern test, no handler
  invocation. So in a room whose configuration has \<open>enabled = false\<close> the handler is never
  invoked, whatever the patterns would say of the text.
\<close>

theorem disabled_room_never_dispatched:
  "on_room_message js client config st now rid event =
     (if sender event = userId config then (IgnoredOwnMessage, [])
      else if non_text event then (IgnoredNonText, [])
      else if text_of js event = [] then (IgnoredEmptyText, [])
      else if room_disabled config rid then (IgnoredDisabledRoom, [])
      else on_room_message js client config st now rid event)
   \<and> (\<forall>rc. roomConfig_of config rid = Some rc \<and> enabled rc = Some False \<longrightarrow>
         \<not> handler_invoked (on_room_message js client config st now rid event)
         \<and> snd (on_room_message js client config st now rid event) = []
         \<and> fst (on_room_message js client config st now rid event)
             \<in> {IgnoredOwnMessage, IgnoredNonText, IgnoredEmptyText, IgnoredDisabledRoom})"
proof (intro conjI allI impI)
  show "on_room_message js client config st now rid event =
     (if sender event = userId config then (IgnoredOwnMessage, [])
      else if non_text event then (IgnoredNonText, [])
      else if text_of js event = [] then (IgnoredEmptyText, [])
      else if room_disabled config rid then (IgnoredDisabledRoom, [])
      else on_room_message js client config st now rid event)"
    by (rule on_room_message_prechecks)
next
  fix rc
  assume "roomConfig_of config rid = Some rc \<and> enabled rc = Some False"
  then have dis: "room_disabled config rid" by (simp add: room_disabled_def)
  have run: "on_room_message js client config st now rid event =
     (if sender event = userId config then (IgnoredOwnMessage, [])
      else if non_text event then (IgnoredNonText, [])
      else if text_of js event = [] then (IgnoredEmptyText, [])
      else (IgnoredDisabledRoom, []))"
    using dis by (rule on_room_message_disabled)
  show "\<not> handler_invoked (on_room_message js client config st now rid event)"
    unfolding run by (simp add: handler_invoked_def)
  show "snd (on_room_message js client config st now rid event) = []"
    unfolding run by simp
  show "fst (on_room_message js client config st now rid event)
             \<in> {IgnoredOwnMessage, IgnoredNonText, IgnoredEmptyText, IgnoredDisabledRoom}"
    unfolding run by simp
qed

theorem disabled_room_never_dispatched_witness:
  "on_room_message ascii_engine
     \<lparr>getJoinedRoomMembers = (\<lambda>r. Some [''@bot:m.org'', ''@alice:m.org'']),
      getUserProfile = (\<lambda>u. Some (Some ''Alice'')),
      mentionPattern_test = (\<lambda>t. True),
      TRIGGER_PATTERN_test = (\<lambda>t. True)\<rparr>
     \<lparr>homeserver = ''https://m.org'', userId = ''@bot:m.org'', accessToken = ''tok'',
      encryption = None,
      rooms = Some [''!r1:m.org'' \<mapsto>
        \<lparr>enabled = Some False, room_requireMention = None, folder = None,
         triggerPattern = None\<rparr>],
      requireMention = None\<rparr>
     \<lparr>OWNER_PATH = None, PENDING_PATH = None\<rparr>
     7000 ''!r1:m.org''
     \<lparr>sender = ''@alice:m.org'',
      content = Some \<lparr>msgtype = Some ''m.text'', body = Some ''@bot:m.org hello'',
        m_relates_to = None\<rparr>,
      event_id = ''$e1'', origin_server_ts = Some 6000\<rparr>
   = (IgnoredDisabledRoom, [])"
proof -
  let ?client = "\<lparr>getJoinedRoomMembers = (\<lambda>r. Some [''@bot:m.org'', ''@alice:m.org'']),
      getUserProfile = (\<lambda>u. Some (Some ''Alice'')),
      mentionPattern_test = (\<lambda>t. True),
      TRIGGER_PATTERN_test = (\<lambda>t. True)\<rparr>"
  let ?rc = "\<lparr>enabled = Some False, room_requireMention = None, folder = None,
         triggerPattern = None\<rparr>"
  let ?config = "\<lparr>homeserver = ''https://m.org'', userId = ''@bot:m.org'', accessToken = ''tok'',
      encryption = None, rooms = Some [''!r1:m.org'' \<mapsto> ?rc], requireMention = None\<rparr>"
  let ?st = "\<lparr>OWNER_PATH = None, PENDING_PATH = None\<rparr>"
  let ?event = "\<lparr>sender = ''@alice:m.org'',
      content = Some \<lparr>msgtype = Some ''m.text'', body = Some ''@bot:m.org hello'',
        m_relates_to = None\<rparr>,
      event_id = ''$e1'', origin_server_ts = Some 6000\<rparr>"
  have h: "roomConfig_of ?config ''!r1:m.org'' = Some ?rc \<and> enabled ?rc = Some False"
    by (simp add: roomConfig_of_def)
  have own: "sender ?event \<noteq> userId ?config" by simp
  have textual: "\<not> non_text ?event" by (simp add: non_text_def falsy_def)
  have nonempty: "text_of ascii_engine ?event \<noteq> []"
    by (simp add: text_of_def ascii_engine_def ascii_trim_def isWhiteSpace_def)
  have dis: "room_disabled ?config ''!r1:m.org''"
    using h by (simp add: room_disabled_def)
  show ?thesis
    using disabled_room_never_dispatched [of ascii_engine ?client ?config ?st 7000 "''!r1:m.org''" ?event,
        THEN conjunct1] own textual nonempty dis
    by simp
qed

subsection \<open>C4: the main room, and an event whose time is not representable\<close>

text \<open>
  C4. The mention requirement is computed as the claim says (see
  \<open>handler_invoked_admission\<close>), but the dispatch the claim draws from it fails for one
  kind of event. In the owner's main room, with a room configuration that sets no
  \<open>requireMention\<close> and no global setting, an event without a mention passes the
  admission check; yet when its \<open>origin_server_ts\<close> is 8640000000000001, the callback
  ends with a RangeError after the profile query and the handler is not invoked. With
  8640000000000000 the same event reaches the handler, with the message record, the room
  configuration and \<open>isMain = True\<close>.
\<close>

theorem main_room_unrepresentable_time:
  "on_room_message ascii_engine
     \<lparr>getJoinedRoomMembers = (\<lambda>r. Some [''@bot:m.org'', ''@alice:m.org'', ''@carol:m.org'']),
      getUserProfile = (\<lambda>u. Some (Some ''Alice'')),
      mentionPattern_test = (\<lambda>t. False),
      TRIGGER_PATTERN_test = (\<lambda>t. False)\<rparr>
     \<lparr>homeserver = ''https://m.org'', userId = ''@bot:m.org'', accessToken = ''tok'',
      encryption = None,
      rooms = Some [''!r1:m.org'' \<mapsto>
        \<lparr>enabled = Some True, room_requireMention = None, folder = Some ''main'',
         triggerPattern = None\<rparr>],
      requireMention = None\<rparr>
     \<lparr>OWNER_PATH = Some \<lparr>ownerId = ''@alice:m.org'', mainRoomId = ''!r1:m.org'',
        pairedAt = 5\<rparr>,
      PENDING_PATH = None\<rparr>
     7000 ''!r1:m.org''
     \<lparr>sender = ''@alice:m.org'',
      content = Some \<lparr>msgtype = Some ''m.text'', body = Some '' hello '',
        m_relates_to = None\<rparr>,
      event_id = ''$e1'', origin_server_ts = Some 8640000000000001\<rparr>
   = (ThrewRangeError, [GetJoinedRoomMembers ''!r1:m.org'', GetUserProfile ''@alice:m.org''])
   \<and> on_room_message ascii_engine
     \<lparr>getJoinedRoomMembers = (\<lambda>r. Some [''@bot:m.org'', ''@alice:m.org'', ''@carol:m.org'']),
      getUserProfile = (\<lambda>u. Some (Some ''Alice'')),
      mentionPattern_test = (\<lambda>t. False),
      TRIGGER_PATTERN_test = (\<lambda>t. False)\<rparr>
     \<lparr>homeserver = ''https://m.org'', userId = ''@bot:m.org'', accessToken = ''tok'',
      encryption = None,
      rooms = Some [''!r1:m.org'' \<mapsto>
        \<lparr>enabled = Some True, room_requireMention = None, folder = Some ''main'',
         triggerPattern = None\<rparr>],
      requireMention = None\<rparr>
     \<lparr>OWNER_PATH = Some \<lparr>ownerId = ''@alice:m.org'', mainRoomId = ''!r1:m.org'',
        pairedAt = 5\<rparr>,
      PENDING_PATH = None\<rparr>
     7000 ''!r1:m.org''
     \<lparr>sender = ''@alice:m.org'',
      content = Some \<lparr>msgtype = Some ''m.text'', body = Some '' hello '',
        m_relates_to = None\<rparr>,
      event_id = ''$e1'', origin_server_ts = Some 8640000000000000\<rparr>
   = (Processed,
      [GetJoinedRoomMembers ''!r1:m.org'', GetUserProfile ''@alice:m.org'',
       OnMessage
         \<lparr>msg_roomId = ''!r1:m.org'', eventId = ''$e1'', msg_sender = ''@alice:m.org'',
          senderName = ''Alice'', msg_content = ''hello'', timestamp = 8640000000000000,
          threadId = None\<rparr>
         (Some \<lparr>enabled = Some True, room_requireMention = None, folder = Some ''main'',
            triggerPattern = None\<rparr>)
         True])"
  by (simp add: on_room_message_def dispatch_def roomConfig_of_def requireMention_of_def
      isPaired_def isMainRoom_def getOwner_def loadJson_def falsy_def ascii_engine_def
      ascii_trim_def isWhiteSpace_def representable_def event_time_def Let_def)

theorem main_room_unrepresentable_time_witness:
  "\<not> handler_invoked
     (on_room_message ascii_engine
        \<lparr>getJoinedRoomMembers = (\<lambda>r. Some [''@bot:m.org'', ''@alice:m.org'', ''@carol:m.org'']),
         getUserProfile = (\<lambda>u. Some (Some ''Alice'')),
         mentionPattern_test = (\<lambda>t. False),
         TRIGGER_PATTERN_test = (\<lambda>t. False)\<rparr>
        \<lparr>homeserver = ''https://m.org'', userId = ''@bot:m.org'', accessToken = ''tok'',
         encryption = None,
         rooms = Some [''!r1:m.org'' \<mapsto>
           \<lparr>enabled = Some True, room_requireMention = None, folder = Some ''main'',
            triggerPattern = None\<rparr>],
         requireMention = None\<rparr>
        \<lparr>OWNER_PATH = Some \<lparr>ownerId = ''@alice:m.org'', mainRoomId = ''!r1:m.org'',
           pairedAt = 5\<rparr>,
         PENDING_PATH = None\<rparr>
        7000 ''!r1:m.org''
        \<lparr>sender = ''@alice:m.org'',
         content = Some \<lparr>msgtype = Some ''m.text'', body = Some '' hello '',
           m_relates_to = None\<rparr>,
         event_id = ''$e1'', origin_server_ts = Some 8640000000000001\<rparr>)"
  unfolding main_room_unrepresentable_time [THEN conjunct1]
  by (simp add: handler_invoked_def)

subsection \<open>C5: a direct message whose time is not representable\<close>

text \<open>
  For an event that no pre-check rejects in a room of at most two members, no mention is
  required whatever the settings; and when the membership query fails the room is not
  taken for a direct message, so the settings decide.
\<close>

lemma direct_message_admission:
  assumes "passes_prechecks js config rid event"
  shows "(\<forall>members. getJoinedRoomMembers client rid = Some members \<and> length members \<le> 2 \<longrightarrow>
            handler_invoked (on_room_message js client config st now rid event)
              = representable (event_time now event)
          \<and> \<not> list_ex is_MentionTest
                (snd (on_room_message js client config st now rid event)))
   \<and> (getJoinedRoomMembers client rid = None
        \<and> (case rooms config of
              None \<Rightarrow> None
            | Some rs \<Rightarrow> (case rs rid of None \<Rightarrow> None | Some rc \<Rightarrow> room_requireMention rc))
            = None
        \<and> requireMention config = Some True
        \<and> \<not> mentionPattern_test client (text_of js event)
        \<and> \<not> TRIGGER_PATTERN_test client (text_of js event)
      \<longrightarrow> on_room_message js client config st now rid event
            = (IgnoredNoMention,
               [GetJoinedRoomMembers rid, MentionTest (text_of js event),
                TriggerTest (text_of js event)]))"
proof (intro conjI allI impI)
  fix members
  assume dm: "getJoinedRoomMembers client rid = Some members \<and> length members \<le> 2"
  show "handler_invoked (on_room_message js client config st now rid event)
          = representable (event_time now event)"
    using dm by (simp add: handler_invoked_admission [OF assms])
  obtain cont where c: "content event = Some cont"
    using passes_prechecks_content [OF assms] by blast
  show "\<not> list_ex is_MentionTest (snd (on_room_message js client config st now rid event))"
    unfolding on_room_message_admission [OF assms c] Let_def
    using dm by (simp add: requireMention_of_def mention_tests_dispatch)
next
  assume strict: "getJoinedRoomMembers client rid = None
        \<and> (case rooms config of
              None \<Rightarrow> None
            | Some rs \<Rightarrow> (case rs rid of None \<Rightarrow> None | Some rc \<Rightarrow> room_requireMention rc))
            = None
        \<and> requireMention config = Some True
        \<and> \<not> mentionPattern_test client (text_of js event)
        \<and> \<not> TRIGGER_PATTERN_test client (text_of js event)"
  obtain cont where c: "content event = Some cont"
    using passes_prechecks_content [OF assms] by blast
  have "requireMention_of False (roomConfig_of config rid) config
          (isPaired st \<and> isMainRoom st rid)"
    using strict by (simp add: requireMention_of_def roomConfig_of_def split: option.splits)
  then show "on_room_message js client config st now rid event
        = (IgnoredNoMention,
           [GetJoinedRoomMembers rid, MentionTest (text_of js event),
            TriggerTest (text_of js event)])"
    unfolding on_room_message_admission [OF assms c] Let_def
    using strict by simp
qed

text \<open>
  C5. A direct message is admitted whatever the mention settings, and a failed membership
  query leaves the mention requirement in force (see \<open>direct_message_admission\<close>), but
  the dispatch the claim states fails for one kind of event. In a room of two members,
  with the room's and the global \<open>requireMention\<close> both true and no pattern matching, an
  event whose \<open>origin_server_ts\<close> is 8640000000000001 makes the callback end with a
  RangeError after the profile query, and the handler is not invoked. With
  8640000000000000 the same event reaches the handler.
\<close>

theorem direct_message_unrepresentable_time:
  "on_room_message ascii_engine
     \<lparr>getJoinedRoomMembers = (\<lambda>r. Some [''@bot:m.org'', ''@alice:m.org'']),
      getUserProfile = (\<lambda>u. None),
      mentionPattern_test = (\<lambda>t. False),
      TRIGGER_PATTERN_test = (\<lambda>t. False)\<rparr>
     \<lparr>homeserver = ''https://m.org'', userId = ''@bot:m.org'', accessToken = ''tok'',
      encryption = None,
      rooms = Some [''!dm:m.org'' \<mapsto>
        \<lparr>enabled = None, room_requireMention = Some True, folder = None,
         triggerPattern = None\<rparr>],
      requireMention = Some True\<rparr>
     \<lparr>OWNER_PATH = None, PENDING_PATH = None\<rparr>
     7000 ''!dm:m.org''
     \<lparr>sender = ''@alice:m.org'',
      content = Some \<lparr>msgtype = Some ''m.text'', body = Some ''hello'',
        m_relates_to = Some \<lparr>rel_type = Some ''m.thread'', rel_event_id = Some ''$e0''\<rparr>\<rparr>,
      event_id = ''$e1'', origin_server_ts = Some 8640000000000001\<rparr>
   = (ThrewRangeError, [GetJoinedRoomMembers ''!dm:m.org'', GetUserProfile ''@alice:m.org''])
   \<and> on_room_message ascii_engine
     \<lparr>getJoinedRoomMembers = (\<lambda>r. Some [''@bot:m.org'', ''@alice:m.org'']),
      getUserProfile = (\<lambda>u. None),
      mentionPattern_test = (\<lambda>t. False),
      TRIGGER_PATTERN_test = (\<lambda>t. False)\<rparr>
     \<lparr>homeserver = ''https://m.org'', userId = ''@bot:m.org'', accessToken = ''tok'',
      encryption = None,
      rooms = Some [''!dm:m.org'' \<mapsto>
        \<lparr>enabled = None, room_requireMention = Some True, folder = None,
         triggerPattern = None\<rparr>],
      requireMention = Some True\<rparr>
     \<lparr>OWNER_PATH = None, PENDING_PATH = None\<rparr>
     7000 ''!dm:m.org''
     \<lparr>sender = ''@alice:m.org'',
      content = Some \<lparr>msgtype = Some ''m.text'', body = Some ''hello'',
        m_relates_to = Some \<lparr>rel_type = Some ''m.thread'', rel_event_id = Some ''$e0''\<rparr>\<rparr>,
      event_id = ''$e1'', origin_server_ts = Some 8640000000000000\<rparr>
   = (Processed,
      [GetJoinedRoomMembers ''!dm:m.org'', GetUserProfile ''@alice:m.org'',
       OnMessage
         \<lparr>msg_roomId = ''!dm:m.org'', eventId = ''$e1'', msg_sender = ''@alice:m.org'',
          senderName = ''@alice:m.org'', msg_content = ''hello'',
          timestamp = 8640000000000000, threadId = Some ''$e0''\<rparr>
         (Some \<lparr>enabled = None, room_requireMention = Some True, folder = None,
            triggerPattern = None\<rparr>)
         False])"
  by (simp add: on_room_message_def dispatch_def roomConfig_of_def requireMention_of_def
      isPaired_def isMainRoom_def getOwner_def loadJson_def falsy_def ascii_engine_def
      ascii_trim_def isWhiteSpace_def representable_def event_time_def Let_def)

theorem direct_message_unrepresentable_time_witness:
  "\<not> handler_invoked
     (on_room_message ascii_engine
        \<lparr>getJoinedRoomMembers = (\<lambda>r. Some [''@bot:m.org'', ''@alice:m.org'']),
         getUserProfile = (\<lambda>u. None),
         mentionPattern_test = (\<lambda>t. False),
         TRIGGER_PATTERN_test = (\<lambda>t. False)\<rparr>
        \<lparr>homeserver = ''https://m.org'', userId = ''@bot:m.org'', accessToken = ''tok'',
         encryption = None,
         rooms = Some [''!dm:m.org'' \<mapsto>
           \<lparr>enabled = None, room_requireMention = Some True, folder = None,
            triggerPattern = None\<rparr>],
         requireMention = Some True\<rparr>
        \<lparr>OWNER_PATH = None, PENDING_PATH = None\<rparr>
        7000 ''!dm:m.org''
        \<lparr>sender = ''@alice:m.org'',
         content = Some \<lparr>msgtype = Some ''m.text'', body = Some ''hello'',
           m_relates_to = Some \<lparr>rel_type = Some ''m.thread'', rel_event_id = Some ''$e0''\<rparr>\<rparr>,
         event_id = ''$e1'', origin_server_ts = Some 8640000000000001\<rparr>)"
  unfolding direct_message_unrepresentable_time [THEN conjunct1]
  by (simp add: handler_invoked_def)

end
